theory Spec2Isabelle
  imports Main
begin

section \<open>The access mixins of \<open>mult_mixins/mixins.py\<close>\<close>

text \<open>
  The module defines four view mixins, each a subclass of the framework's
  \<open>UserPassesTestMixin\<close>: \<open>StaffMixin\<close>, \<open>SuperuserMixin\<close>, \<open>OwnerMixin\<close> and
  \<open>OwnerOrStaffMixin\<close>. The specification calls them the policies \<open>StaffOnly\<close>,
  \<open>SuperuserOnly\<close>, \<open>OwnerOnly\<close> and \<open>OwnerOrStaff\<close>. Each class sets
  \<open>raise_exception = True\<close> and a \<open>permission_denied_message\<close>, and overrides
  \<open>test_func\<close>; the two owner classes also carry \<open>owner_kwargs\<close> and
  \<open>get_owner_kwargs\<close>.
\<close>

subsection \<open>The user of a request\<close>

text \<open>
  \<open>self.request.user\<close> is the framework's \<open>AnonymousUser\<close> or a row of the user model.
  The mixins read \<open>is_staff\<close>, \<open>is_superuser\<close> and \<open>get_username()\<close> from it.
  \<open>AnonymousUser\<close> has the class attributes \<open>username = ''\<close>, \<open>is_staff = False\<close> and
  \<open>is_superuser = False\<close>, and is the only user that is not authenticated.
  \<open>User name staff super\<close> is a row with that username and those two flags.
\<close>

datatype user = AnonymousUser | User string bool bool

fun get_username :: "user \<Rightarrow> string" where
  "get_username AnonymousUser = ''''"
| "get_username (User name staff super) = name"

fun is_staff :: "user \<Rightarrow> bool" where
  "is_staff AnonymousUser = False"
| "is_staff (User name staff super) = staff"

fun is_superuser :: "user \<Rightarrow> bool" where
  "is_superuser AnonymousUser = False"
| "is_superuser (User name staff super) = super"

fun is_authenticated :: "user \<Rightarrow> bool" where
  "is_authenticated AnonymousUser = False"
| "is_authenticated (User name staff super) = True"

subsection \<open>The view instance\<close>

text \<open>
  What a mixin reads from \<open>self\<close>: the configured \<open>owner_kwargs\<close> (\<open>None\<close> by
  default), the keyword arguments captured from the URL (\<open>self.kwargs\<close>, a dict of
  strings), \<open>self.request.user\<close> and \<open>self.request.path\<close>.
\<close>

record view =
  owner_kwargs :: "string option"
  kwargs :: "string \<rightharpoonup> string"
  request_user :: user
  request_path :: string

datatype mixin = StaffMixin | SuperuserMixin | OwnerMixin | OwnerOrStaffMixin

fun raise_exception :: "mixin \<Rightarrow> bool" where
  "raise_exception StaffMixin = True"
| "raise_exception SuperuserMixin = True"
| "raise_exception OwnerMixin = True"
| "raise_exception OwnerOrStaffMixin = True"

fun permission_denied_message :: "mixin \<Rightarrow> string" where
  "permission_denied_message StaffMixin =
     ''You are not a staff user. You do not have the right to view this page.''"
| "permission_denied_message SuperuserMixin =
     ''You are not a superuser user. You do not have the right to view this page.''"
| "permission_denied_message OwnerMixin =
     ''You are not the owner of the page. You cannot view it.''"
| "permission_denied_message OwnerOrStaffMixin =
     ''You are not the owner of the page nor a staff user. You cannot view it.''"

text \<open>
  \<open>get_owner_kwargs\<close> has the same body in \<open>OwnerMixin\<close> and \<open>OwnerOrStaffMixin\<close>:
  \<open>'username'\<close> when \<open>owner_kwargs is None\<close>, the configured key otherwise.
\<close>

definition get_owner_kwargs :: "view \<Rightarrow> string" where
  "get_owner_kwargs self =
     (case owner_kwargs self of None \<Rightarrow> ''username'' | Some key \<Rightarrow> key)"

text \<open>\<open>self.kwargs.get(self.get_owner_kwargs())\<close>: \<open>None\<close> when the key is absent.\<close>

definition owner_value :: "view \<Rightarrow> string option" where
  "owner_value self = kwargs self (get_owner_kwargs self)"

subsection \<open>The user table\<close>

text \<open>
  \<open>get_user_model().objects.filter(username=x).exists()\<close> against the set of usernames
  stored in the user table. The column is not nullable, so the filter on \<open>None\<close>
  (an \<open>IS NULL\<close> test) matches no row.
\<close>

definition user_exists :: "string set \<Rightarrow> string option \<Rightarrow> bool" where
  "user_exists db x = (case x of None \<Rightarrow> False | Some name \<Rightarrow> name \<in> db)"

subsection \<open>Messages, the exception of \<open>test_func\<close> and the log\<close>

text \<open>\<open>'%(username)s' % {'username': x}\<close> prints \<open>None\<close> as \<open>None\<close>.\<close>

definition str_of :: "string option \<Rightarrow> string" where
  "str_of x = (case x of None \<Rightarrow> ''None'' | Some s \<Rightarrow> s)"

text \<open>\<open>"User '%(username)s' does not exist." % {'username': x}\<close>\<close>

definition does_not_exist_message :: "string option \<Rightarrow> string" where
  "does_not_exist_message x =
     ''User '' @ [CHR 0x27] @ str_of x @ [CHR 0x27] @ '' does not exist.''"

text \<open>\<open>"Staff user %(username)s accessed '%(url)s' page" % {'username': n, 'url': p}\<close>\<close>

definition staff_access_message :: "string \<Rightarrow> string \<Rightarrow> string" where
  "staff_access_message name url =
     ''Staff user '' @ name @ '' accessed '' @ [CHR 0x27] @ url @ [CHR 0x27] @ '' page''"

datatype exn = Http404 string

text \<open>A record handed to the module's logger: \<open>logger.info(msg)\<close> is \<open>Info msg\<close>.\<close>

datatype log_record = Info string

subsection \<open>The four \<open>test_func\<close> methods\<close>

definition StaffMixin_test_func :: "view \<Rightarrow> bool" where
  "StaffMixin_test_func self = is_staff (request_user self)"

definition SuperuserMixin_test_func :: "view \<Rightarrow> bool" where
  "SuperuserMixin_test_func self = is_superuser (request_user self)"

text \<open>
  \<open>OwnerMixin.test_func\<close> raises \<open>Http404\<close> when no user has the requested name, and
  otherwise compares the request user's name with it.
\<close>

definition OwnerMixin_test_func :: "string set \<Rightarrow> view \<Rightarrow> exn + bool" where
  "OwnerMixin_test_func db self =
     (if \<not> user_exists db (owner_value self)
      then Inl (Http404 (does_not_exist_message (owner_value self)))
      else Inr (Some (get_username (request_user self)) = owner_value self))"

text \<open>
  \<open>OwnerOrStaffMixin.test_func\<close> is an \<open>if\<close>/\<open>elif\<close>/\<open>elif\<close>/\<open>else\<close> chain; the staff
  branch calls \<open>logger.info\<close> before it sets \<open>ret = True\<close>. The log is passed in and
  returned.
\<close>

definition OwnerOrStaffMixin_test_func ::
  "string set \<Rightarrow> view \<Rightarrow> log_record list \<Rightarrow> (exn + bool) \<times> log_record list" where
  "OwnerOrStaffMixin_test_func db self log =
     (if \<not> user_exists db (owner_value self)
      then (Inl (Http404 (does_not_exist_message (owner_value self))), log)
      else if Some (get_username (request_user self)) = owner_value self
      then (Inr True, log)
      else if is_staff (request_user self)
      then (Inr True,
            log @ [Info (staff_access_message (get_username (request_user self))
                           (request_path self))])
      else (Inr False, log))"

fun test_func ::
  "mixin \<Rightarrow> string set \<Rightarrow> view \<Rightarrow> log_record list \<Rightarrow> (exn + bool) \<times> log_record list" where
  "test_func StaffMixin db self log = (Inr (StaffMixin_test_func self), log)"
| "test_func SuperuserMixin db self log = (Inr (SuperuserMixin_test_func self), log)"
| "test_func OwnerMixin db self log = (OwnerMixin_test_func db self, log)"
| "test_func OwnerOrStaffMixin db self log = OwnerOrStaffMixin_test_func db self log"

subsection \<open>Dispatch\<close>

text \<open>
  What a request ends in. \<open>Allow\<close>: the test passed and the handler runs.
  \<open>DenyForbidden msg\<close>: \<open>PermissionDenied(msg)\<close> is raised (HTTP 403).
  \<open>DenyNotFound msg\<close>: \<open>Http404(msg)\<close> is raised (HTTP 404).
  \<open>RedirectToLogin\<close>: the framework's answer to a failed test when the class does not
  set \<open>raise_exception\<close> and the user is not authenticated.
\<close>

datatype verdict = Allow | DenyForbidden string | DenyNotFound string | RedirectToLogin

text \<open>
  The framework's \<open>AccessMixin.handle_no_permission\<close>:
  \<open>if self.raise_exception or self.request.user.is_authenticated: raise
  PermissionDenied(self.get_permission_denied_message())\<close>, else a redirect to the
  login page.
\<close>

definition handle_no_permission :: "mixin \<Rightarrow> view \<Rightarrow> verdict" where
  "handle_no_permission m self =
     (if raise_exception m \<or> is_authenticated (request_user self)
      then DenyForbidden (permission_denied_message m)
      else RedirectToLogin)"

text \<open>
  The framework's \<open>UserPassesTestMixin.dispatch\<close>: it calls \<open>test_func\<close>; an exception
  of \<open>test_func\<close> propagates; a false result goes to \<open>handle_no_permission\<close>; a true
  result lets the handler run.
\<close>

definition dispatch ::
  "mixin \<Rightarrow> string set \<Rightarrow> view \<Rightarrow> log_record list \<Rightarrow> verdict \<times> log_record list" where
  "dispatch m db self log =
     (case test_func m db self log of
        (Inl (Http404 msg), log') \<Rightarrow> (DenyNotFound msg, log')
      | (Inr True, log') \<Rightarrow> (Allow, log')
      | (Inr False, log') \<Rightarrow> (handle_no_permission m self, log'))"

section \<open>Properties\<close>

subsection \<open>Shared facts\<close>

lemma dispatch_StaffMixin:
  "dispatch StaffMixin db self log =
     (if is_staff (request_user self) then Allow
      else DenyForbidden (permission_denied_message StaffMixin), log)"
  by (simp add: dispatch_def StaffMixin_test_func_def handle_no_permission_def)

lemma dispatch_SuperuserMixin:
  "dispatch SuperuserMixin db self log =
     (if is_superuser (request_user self) then Allow
      else DenyForbidden (permission_denied_message SuperuserMixin), log)"
  by (simp add: dispatch_def SuperuserMixin_test_func_def handle_no_permission_def)

lemma dispatch_OwnerMixin:
  "dispatch OwnerMixin db self log =
     (if \<not> user_exists db (owner_value self)
      then DenyNotFound (does_not_exist_message (owner_value self))
      else if Some (get_username (request_user self)) = owner_value self then Allow
      else DenyForbidden (permission_denied_message OwnerMixin), log)"
  by (simp add: dispatch_def OwnerMixin_test_func_def handle_no_permission_def)

lemma dispatch_OwnerOrStaffMixin:
  "dispatch OwnerOrStaffMixin db self log =
     (if \<not> user_exists db (owner_value self)
      then (DenyNotFound (does_not_exist_message (owner_value self)), log)
      else if Some (get_username (request_user self)) = owner_value self
      then (Allow, log)
      else if is_staff (request_user self)
      then (Allow,
            log @ [Info (staff_access_message (get_username (request_user self))
                           (request_path self))])
      else (DenyForbidden (permission_denied_message OwnerOrStaffMixin), log))"
  by (simp add: dispatch_def OwnerOrStaffMixin_test_func_def handle_no_permission_def)

subsection \<open>Missing owner\<close>

text \<open>
  Claim C1. Under \<open>OwnerMixin\<close> (OwnerOnly) and \<open>OwnerOrStaffMixin\<close> (OwnerOrStaff),
  whenever no row of the user table has the requested owner name, the request ends in
  \<open>DenyNotFound\<close> with the message \<open>User '<name>' does not exist.\<close>, whoever the
  request user is (anonymous, the namesake of the missing owner, staff or superuser),
  and the log is left as it was. The existence test is the first branch of both
  \<open>test_func\<close> bodies, so neither the name comparison nor the staff test can change
  this outcome. Conversely, whichever mixin is active, a request ends in
  \<open>DenyNotFound\<close> only when the mixin is one of these two and the owner name matches
  no row.
\<close>

theorem not_found_first:
  "((m = OwnerMixin \<or> m = OwnerOrStaffMixin) \<and> \<not> user_exists db (owner_value self)
      \<longrightarrow> dispatch m db self log =
            (DenyNotFound (does_not_exist_message (owner_value self)), log))
   \<and> ((\<exists>msg. fst (dispatch m db self log) = DenyNotFound msg)
        \<longleftrightarrow> (m = OwnerMixin \<or> m = OwnerOrStaffMixin)
            \<and> \<not> user_exists db (owner_value self))"
  by (cases m)
     (simp_all add: dispatch_StaffMixin dispatch_SuperuserMixin dispatch_OwnerMixin
        dispatch_OwnerOrStaffMixin)

theorem not_found_first_witness:
  "\<not> user_exists {''owner''} (owner_value
        \<lparr>owner_kwargs = None, kwargs = [''username'' \<mapsto> ''hello''],
         request_user = User ''hello'' True True, request_path = ''/rand''\<rparr>)
   \<and> dispatch OwnerOrStaffMixin {''owner''}
        \<lparr>owner_kwargs = None, kwargs = [''username'' \<mapsto> ''hello''],
         request_user = User ''hello'' True True, request_path = ''/rand''\<rparr> []
       = (DenyNotFound (does_not_exist_message (Some ''hello'')), [])
   \<and> dispatch OwnerMixin {''owner''}
        \<lparr>owner_kwargs = None, kwargs = [''username'' \<mapsto> ''hello''],
         request_user = AnonymousUser, request_path = ''/rand''\<rparr> []
       = (DenyNotFound (does_not_exist_message (Some ''hello'')), [])"
  using not_found_first [of OwnerOrStaffMixin "{''owner''}"
        "\<lparr>owner_kwargs = None, kwargs = [''username'' \<mapsto> ''hello''],
         request_user = User ''hello'' True True, request_path = ''/rand''\<rparr>" "[]"]
      not_found_first [of OwnerMixin "{''owner''}"
        "\<lparr>owner_kwargs = None, kwargs = [''username'' \<mapsto> ''hello''],
         request_user = AnonymousUser, request_path = ''/rand''\<rparr>" "[]"]
  by (simp add: owner_value_def get_owner_kwargs_def user_exists_def)

subsection \<open>Decisions for an existing owner\<close>

text \<open>
  Claim C2. When the requested owner name is in the user table, \<open>OwnerOrStaffMixin\<close>
  decides in this order: \<open>Allow\<close> when the request user's name equals the owner name;
  otherwise \<open>Allow\<close> when the request user is staff; otherwise \<open>DenyForbidden\<close> with
  the class's \<open>permission_denied_message\<close>, the not-the-owner-nor-staff reason.
\<close>

theorem OwnerOrStaff_order:
  assumes "user_exists db (owner_value self)"
  shows "fst (dispatch OwnerOrStaffMixin db self log) =
     (if Some (get_username (request_user self)) = owner_value self then Allow
      else if is_staff (request_user self) then Allow
      else DenyForbidden
             ''You are not the owner of the page nor a staff user. You cannot view it.'')"
  using assms by (simp add: dispatch_OwnerOrStaffMixin)

theorem OwnerOrStaff_order_witness:
  "user_exists {''owner'', ''other'', ''staff''} (owner_value
        \<lparr>owner_kwargs = None, kwargs = [''username'' \<mapsto> ''other''],
         request_user = User ''owner'' False False, request_path = ''/rand''\<rparr>)
   \<and> fst (dispatch OwnerOrStaffMixin {''owner'', ''other'', ''staff''}
        \<lparr>owner_kwargs = None, kwargs = [''username'' \<mapsto> ''other''],
         request_user = User ''owner'' False False, request_path = ''/rand''\<rparr> [])
       = DenyForbidden
           ''You are not the owner of the page nor a staff user. You cannot view it.''"
  using OwnerOrStaff_order [of "{''owner'', ''other'', ''staff''}"
        "\<lparr>owner_kwargs = None, kwargs = [''username'' \<mapsto> ''other''],
         request_user = User ''owner'' False False, request_path = ''/rand''\<rparr>" "[]"]
  by (simp add: owner_value_def get_owner_kwargs_def user_exists_def)

text \<open>
  Claim C3. When the requested owner exists and the request user is not the owner,
  \<open>OwnerOrStaffMixin\<close> allows a staff user and appends exactly one record to the log:
  the \<open>info\<close> message \<open>Staff user <name> accessed '<path>' page\<close>, which holds the
  request user's name and the request path. For a user who is not staff it ends in
  \<open>DenyForbidden\<close> and the log is unchanged.
\<close>

theorem OwnerOrStaff_audit:
  assumes "user_exists db (owner_value self)"
    and "Some (get_username (request_user self)) \<noteq> owner_value self"
  shows "dispatch OwnerOrStaffMixin db self log =
     (if is_staff (request_user self)
      then (Allow,
            log @ [Info (''Staff user '' @ get_username (request_user self)
                         @ '' accessed '' @ [CHR 0x27] @ request_path self @ [CHR 0x27]
                         @ '' page'')])
      else (DenyForbidden (permission_denied_message OwnerOrStaffMixin), log))"
  using assms by (simp add: dispatch_OwnerOrStaffMixin staff_access_message_def)

theorem OwnerOrStaff_audit_witness:
  "user_exists {''owner'', ''other'', ''staff1''} (Some ''other'')
   \<and> Some (get_username (User ''staff1'' True False)) \<noteq> Some ''other''
   \<and> dispatch OwnerOrStaffMixin {''owner'', ''other'', ''staff1''}
        \<lparr>owner_kwargs = None, kwargs = [''username'' \<mapsto> ''other''],
         request_user = User ''staff1'' True False, request_path = ''/rand''\<rparr> []
       = (Allow,
          [Info (''Staff user staff1 accessed '' @ [CHR 0x27] @ ''/rand'' @ [CHR 0x27]
                 @ '' page'')])
   \<and> dispatch OwnerOrStaffMixin {''owner'', ''other'', ''staff1''}
        \<lparr>owner_kwargs = None, kwargs = [''username'' \<mapsto> ''other''],
         request_user = User ''owner'' False False, request_path = ''/rand''\<rparr> []
       = (DenyForbidden
            ''You are not the owner of the page nor a staff user. You cannot view it.'', [])"
  using OwnerOrStaff_audit [of "{''owner'', ''other'', ''staff1''}"
        "\<lparr>owner_kwargs = None, kwargs = [''username'' \<mapsto> ''other''],
         request_user = User ''staff1'' True False, request_path = ''/rand''\<rparr>" "[]"]
      OwnerOrStaff_audit [of "{''owner'', ''other'', ''staff1''}"
        "\<lparr>owner_kwargs = None, kwargs = [''username'' \<mapsto> ''other''],
         request_user = User ''owner'' False False, request_path = ''/rand''\<rparr>" "[]"]
  by (simp add: owner_value_def get_owner_kwargs_def user_exists_def)

text \<open>
  Claim C4. When the requested owner name is in the user table, \<open>OwnerMixin\<close> ends in
  \<open>Allow\<close> exactly when the request user's name equals the owner name, and otherwise
  in \<open>DenyForbidden\<close> with the class's \<open>permission_denied_message\<close>, the
  not-the-owner reason. The log is unchanged.
\<close>

theorem OwnerOnly_verdict:
  assumes "user_exists db (owner_value self)"
  shows "dispatch OwnerMixin db self log =
     (if Some (get_username (request_user self)) = owner_value self then Allow
      else DenyForbidden ''You are not the owner of the page. You cannot view it.'',
      log)"
  using assms by (simp add: dispatch_OwnerMixin)

theorem OwnerOnly_verdict_witness:
  "user_exists {''alice'', ''bob''} (Some ''alice'')
   \<and> user_exists {''alice'', ''bob''} (Some ''bob'')
   \<and> dispatch OwnerMixin {''alice'', ''bob''}
        \<lparr>owner_kwargs = None, kwargs = [''username'' \<mapsto> ''alice''],
         request_user = User ''alice'' False False, request_path = ''/rand''\<rparr> []
       = (Allow, [])
   \<and> dispatch OwnerMixin {''alice'', ''bob''}
        \<lparr>owner_kwargs = None, kwargs = [''username'' \<mapsto> ''bob''],
         request_user = User ''alice'' False False, request_path = ''/rand''\<rparr> []
       = (DenyForbidden ''You are not the owner of the page. You cannot view it.'', [])"
  using OwnerOnly_verdict [of "{''alice'', ''bob''}"
        "\<lparr>owner_kwargs = None, kwargs = [''username'' \<mapsto> ''alice''],
         request_user = User ''alice'' False False, request_path = ''/rand''\<rparr>" "[]"]
      OwnerOnly_verdict [of "{''alice'', ''bob''}"
        "\<lparr>owner_kwargs = None, kwargs = [''username'' \<mapsto> ''bob''],
         request_user = User ''alice'' False False, request_path = ''/rand''\<rparr>" "[]"]
  by (simp add: owner_value_def get_owner_kwargs_def user_exists_def)

subsection \<open>Staff and superuser\<close>

text \<open>
  Claim C5. \<open>StaffMixin\<close> (StaffOnly) ends in \<open>Allow\<close> exactly when the request user
  is authenticated and staff, and otherwise in \<open>DenyForbidden\<close> with the class's
  \<open>permission_denied_message\<close>, the not-a-staff-user reason. \<open>test_func\<close> reads
  \<open>is_staff\<close> only; the anonymous user is never staff, so the two tests agree.
\<close>

theorem StaffOnly_verdict:
  "dispatch StaffMixin db self log =
     (if is_authenticated (request_user self) \<and> is_staff (request_user self) then Allow
      else DenyForbidden
             ''You are not a staff user. You do not have the right to view this page.'',
      log)"
  by (cases "request_user self") (simp_all add: dispatch_StaffMixin)

theorem StaffOnly_verdict_witness:
  "dispatch StaffMixin {}
      \<lparr>owner_kwargs = None, kwargs = Map.empty,
       request_user = User ''staff'' True False, request_path = ''/rand''\<rparr> []
     = (Allow, [])
   \<and> dispatch StaffMixin {}
      \<lparr>owner_kwargs = None, kwargs = Map.empty,
       request_user = AnonymousUser, request_path = ''/rand''\<rparr> []
     = (DenyForbidden
          ''You are not a staff user. You do not have the right to view this page.'', [])"
  using StaffOnly_verdict [of "{}" "\<lparr>owner_kwargs = None, kwargs = Map.empty,
       request_user = User ''staff'' True False, request_path = ''/rand''\<rparr>" "[]"]
    StaffOnly_verdict [of "{}" "\<lparr>owner_kwargs = None, kwargs = Map.empty,
       request_user = AnonymousUser, request_path = ''/rand''\<rparr>" "[]"]
  by simp

text \<open>
  Claim C6. \<open>SuperuserMixin\<close> (SuperuserOnly) ends in \<open>Allow\<close> exactly when the
  request user is authenticated and a superuser, and otherwise in \<open>DenyForbidden\<close>
  with the class's \<open>permission_denied_message\<close>, the not-a-superuser reason.
\<close>

theorem SuperuserOnly_verdict:
  "dispatch SuperuserMixin db self log =
     (if is_authenticated (request_user self) \<and> is_superuser (request_user self)
      then Allow
      else DenyForbidden
             ''You are not a superuser user. You do not have the right to view this page.'',
      log)"
  by (cases "request_user self") (simp_all add: dispatch_SuperuserMixin)

theorem SuperuserOnly_verdict_witness:
  "dispatch SuperuserMixin {}
      \<lparr>owner_kwargs = None, kwargs = Map.empty,
       request_user = User ''root'' True True, request_path = ''/rand''\<rparr> []
     = (Allow, [])
   \<and> dispatch SuperuserMixin {}
      \<lparr>owner_kwargs = None, kwargs = Map.empty,
       request_user = User ''staff'' True False, request_path = ''/rand''\<rparr> []
     = (DenyForbidden
          ''You are not a superuser user. You do not have the right to view this page.'',
        [])"
  using SuperuserOnly_verdict [of "{}" "\<lparr>owner_kwargs = None, kwargs = Map.empty,
       request_user = User ''root'' True True, request_path = ''/rand''\<rparr>" "[]"]
    SuperuserOnly_verdict [of "{}" "\<lparr>owner_kwargs = None, kwargs = Map.empty,
       request_user = User ''staff'' True False, request_path = ''/rand''\<rparr>" "[]"]
  by simp

subsection \<open>The owner lookup key\<close>

text \<open>
  Claim C7. With \<open>owner_kwargs\<close> unset, \<open>get_owner_kwargs\<close> is \<open>'username'\<close> and both
  owner mixins read the keyword argument of that name; with a configured key they read
  the keyword argument of that key. What they decide over the value read is the same
  for every key. \<open>OwnerMixin\<close>: \<open>DenyNotFound\<close> when the field is absent or its value
  is not a username of the user table, \<open>Allow\<close> when the value equals the request
  user's name, \<open>DenyForbidden\<close> otherwise. \<open>OwnerOrStaffMixin\<close>: the same, with
  \<open>Allow\<close> and one log record for a staff user before the final \<open>DenyForbidden\<close>.
  Hence two views whose looked-up owner values, request users and request paths agree
  end in the same verdict and the same log, whatever their keys and their other keyword
  arguments are.
\<close>

theorem owner_lookup_key:
  "get_owner_kwargs (self\<lparr>owner_kwargs := None\<rparr>) = ''username''
   \<and> get_owner_kwargs (self\<lparr>owner_kwargs := Some key\<rparr>) = key
   \<and> owner_value (self\<lparr>owner_kwargs := None\<rparr>) = kwargs self ''username''
   \<and> owner_value (self\<lparr>owner_kwargs := Some key\<rparr>) = kwargs self key
   \<and> dispatch OwnerMixin db self log =
       (case kwargs self (case owner_kwargs self of None \<Rightarrow> ''username'' | Some k \<Rightarrow> k) of
          None \<Rightarrow>
            (DenyNotFound (''User '' @ [CHR 0x27] @ ''None'' @ [CHR 0x27]
                           @ '' does not exist.''), log)
        | Some name \<Rightarrow>
            if name \<notin> db
            then (DenyNotFound (''User '' @ [CHR 0x27] @ name @ [CHR 0x27]
                                @ '' does not exist.''), log)
            else if get_username (request_user self) = name then (Allow, log)
            else (DenyForbidden
                    ''You are not the owner of the page. You cannot view it.'', log))
   \<and> dispatch OwnerOrStaffMixin db self log =
       (case kwargs self (case owner_kwargs self of None \<Rightarrow> ''username'' | Some k \<Rightarrow> k) of
          None \<Rightarrow>
            (DenyNotFound (''User '' @ [CHR 0x27] @ ''None'' @ [CHR 0x27]
                           @ '' does not exist.''), log)
        | Some name \<Rightarrow>
            if name \<notin> db
            then (DenyNotFound (''User '' @ [CHR 0x27] @ name @ [CHR 0x27]
                                @ '' does not exist.''), log)
            else if get_username (request_user self) = name then (Allow, log)
            else if is_staff (request_user self)
            then (Allow,
                  log @ [Info (''Staff user '' @ get_username (request_user self)
                               @ '' accessed '' @ [CHR 0x27] @ request_path self
                               @ [CHR 0x27] @ '' page'')])
            else (DenyForbidden
                    ''You are not the owner of the page nor a staff user. You cannot view it.'',
                  log))
   \<and> (\<forall>m self'. (m = OwnerMixin \<or> m = OwnerOrStaffMixin)
          \<and> owner_value self' = owner_value self
          \<and> request_user self' = request_user self
          \<and> request_path self' = request_path self
        \<longrightarrow> dispatch m db self' log = dispatch m db self log)"
proof -
  have key: "get_owner_kwargs (self\<lparr>owner_kwargs := None\<rparr>) = ''username''
      \<and> get_owner_kwargs (self\<lparr>owner_kwargs := Some key\<rparr>) = key
      \<and> owner_value (self\<lparr>owner_kwargs := None\<rparr>) = kwargs self ''username''
      \<and> owner_value (self\<lparr>owner_kwargs := Some key\<rparr>) = kwargs self key"
    by (simp add: get_owner_kwargs_def owner_value_def)
  have own: "dispatch OwnerMixin db self log =
       (case kwargs self (case owner_kwargs self of None \<Rightarrow> ''username'' | Some k \<Rightarrow> k) of
          None \<Rightarrow>
            (DenyNotFound (''User '' @ [CHR 0x27] @ ''None'' @ [CHR 0x27]
                           @ '' does not exist.''), log)
        | Some name \<Rightarrow>
            if name \<notin> db
            then (DenyNotFound (''User '' @ [CHR 0x27] @ name @ [CHR 0x27]
                                @ '' does not exist.''), log)
            else if get_username (request_user self) = name then (Allow, log)
            else (DenyForbidden
                    ''You are not the owner of the page. You cannot view it.'', log))"
    by (simp add: dispatch_OwnerMixin owner_value_def get_owner_kwargs_def user_exists_def
          does_not_exist_message_def str_of_def split: option.split)
  have ors: "dispatch OwnerOrStaffMixin db self log =
       (case kwargs self (case owner_kwargs self of None \<Rightarrow> ''username'' | Some k \<Rightarrow> k) of
          None \<Rightarrow>
            (DenyNotFound (''User '' @ [CHR 0x27] @ ''None'' @ [CHR 0x27]
                           @ '' does not exist.''), log)
        | Some name \<Rightarrow>
            if name \<notin> db
            then (DenyNotFound (''User '' @ [CHR 0x27] @ name @ [CHR 0x27]
                                @ '' does not exist.''), log)
            else if get_username (request_user self) = name then (Allow, log)
            else if is_staff (request_user self)
            then (Allow,
                  log @ [Info (''Staff user '' @ get_username (request_user self)
                               @ '' accessed '' @ [CHR 0x27] @ request_path self
                               @ [CHR 0x27] @ '' page'')])
            else (DenyForbidden
                    ''You are not the owner of the page nor a staff user. You cannot view it.'',
                  log))"
    by (simp add: dispatch_OwnerOrStaffMixin owner_value_def get_owner_kwargs_def
          user_exists_def does_not_exist_message_def str_of_def staff_access_message_def
          split: option.split)
  have same: "\<forall>m self'. (m = OwnerMixin \<or> m = OwnerOrStaffMixin)
          \<and> owner_value self' = owner_value self
          \<and> request_user self' = request_user self
          \<and> request_path self' = request_path self
        \<longrightarrow> dispatch m db self' log = dispatch m db self log"
    by (auto simp add: dispatch_OwnerMixin dispatch_OwnerOrStaffMixin)
  from key own ors same show ?thesis by (intro conjI) (elim conjE, assumption)+
qed

theorem owner_lookup_key_witness:
  "dispatch OwnerMixin {''alice'', ''bob''}
        \<lparr>owner_kwargs = Some ''user'',
         kwargs = [''user'' \<mapsto> ''bob'', ''username'' \<mapsto> ''alice''],
         request_user = User ''bob'' False False, request_path = ''/rand''\<rparr> []
     = (Allow, [])
   \<and> dispatch OwnerMixin {''alice'', ''bob''}
        \<lparr>owner_kwargs = None,
         kwargs = [''user'' \<mapsto> ''bob'', ''username'' \<mapsto> ''alice''],
         request_user = User ''bob'' False False, request_path = ''/rand''\<rparr> []
     = (DenyForbidden ''You are not the owner of the page. You cannot view it.'', [])
   \<and> dispatch OwnerOrStaffMixin {''alice'', ''bob''}
        \<lparr>owner_kwargs = Some ''user'',
         kwargs = [''user'' \<mapsto> ''bob'', ''username'' \<mapsto> ''alice''],
         request_user = User ''bob'' False False, request_path = ''/rand''\<rparr> []
     = (Allow, [])
   \<and> dispatch OwnerOrStaffMixin {''alice'', ''bob''}
        \<lparr>owner_kwargs = None,
         kwargs = [''user'' \<mapsto> ''bob'', ''username'' \<mapsto> ''alice''],
         request_user = User ''bob'' False False, request_path = ''/rand''\<rparr> []
     = (DenyForbidden
          ''You are not the owner of the page nor a staff user. You cannot view it.'', [])
   \<and> owner_value \<lparr>owner_kwargs = Some ''user'',
                 kwargs = [''user'' \<mapsto> ''bob'', ''username'' \<mapsto> ''alice''],
                 request_user = User ''bob'' False False, request_path = ''/rand''\<rparr>
     = owner_value \<lparr>owner_kwargs = None, kwargs = [''username'' \<mapsto> ''bob''],
                 request_user = User ''bob'' False False, request_path = ''/rand''\<rparr>
   \<and> dispatch OwnerMixin {''alice'', ''bob''}
        \<lparr>owner_kwargs = Some ''user'',
         kwargs = [''user'' \<mapsto> ''bob'', ''username'' \<mapsto> ''alice''],
         request_user = User ''bob'' False False, request_path = ''/rand''\<rparr> []
     = dispatch OwnerMixin {''alice'', ''bob''}
        \<lparr>owner_kwargs = None, kwargs = [''username'' \<mapsto> ''bob''],
         request_user = User ''bob'' False False, request_path = ''/rand''\<rparr> []"
proof -
  let ?db = "{''alice'', ''bob''}"
  let ?a = "\<lparr>owner_kwargs = None, kwargs = [''username'' \<mapsto> ''bob''],
         request_user = User ''bob'' False False, request_path = ''/rand''\<rparr>"
  let ?b = "\<lparr>owner_kwargs = Some ''user'',
         kwargs = [''user'' \<mapsto> ''bob'', ''username'' \<mapsto> ''alice''],
         request_user = User ''bob'' False False, request_path = ''/rand''\<rparr>"
  let ?c = "\<lparr>owner_kwargs = None,
         kwargs = [''user'' \<mapsto> ''bob'', ''username'' \<mapsto> ''alice''],
         request_user = User ''bob'' False False, request_path = ''/rand''\<rparr>"
  note kb = owner_lookup_key [of ?b "''user''" ?db "[]"]
  note kc = owner_lookup_key [of ?c "''user''" ?db "[]"]
  note ka = owner_lookup_key [of ?a "''user''" ?db "[]"]
  have b1: "dispatch OwnerMixin ?db ?b [] = (Allow, [])"
    using kb [THEN conjunct2, THEN conjunct2, THEN conjunct2, THEN conjunct2, THEN conjunct1]
    by simp
  have c1: "dispatch OwnerMixin ?db ?c [] =
      (DenyForbidden ''You are not the owner of the page. You cannot view it.'', [])"
    using kc [THEN conjunct2, THEN conjunct2, THEN conjunct2, THEN conjunct2, THEN conjunct1]
    by simp
  have b2: "dispatch OwnerOrStaffMixin ?db ?b [] = (Allow, [])"
    using kb [THEN conjunct2, THEN conjunct2, THEN conjunct2, THEN conjunct2, THEN conjunct2,
              THEN conjunct1]
    by simp
  have c2: "dispatch OwnerOrStaffMixin ?db ?c [] =
      (DenyForbidden
         ''You are not the owner of the page nor a staff user. You cannot view it.'', [])"
    using kc [THEN conjunct2, THEN conjunct2, THEN conjunct2, THEN conjunct2, THEN conjunct2,
              THEN conjunct1]
    by simp
  have v: "owner_value ?b = owner_value ?a"
    by (simp add: owner_value_def get_owner_kwargs_def)
  have u: "request_user ?b = request_user ?a" and p: "request_path ?b = request_path ?a"
    by simp_all
  have same: "dispatch OwnerMixin ?db ?b [] = dispatch OwnerMixin ?db ?a []"
    using ka v u p by blast
  from b1 c1 b2 c2 v same show ?thesis by (intro conjI)
qed

subsection \<open>The outcomes of a request\<close>

text \<open>
  Claim C8. Every request under any of the four mixins ends in \<open>Allow\<close>, in
  \<open>DenyForbidden\<close> with the mixin's \<open>permission_denied_message\<close>, or in
  \<open>DenyNotFound\<close> with the does-not-exist message; since every class sets
  \<open>raise_exception\<close>, a failed test never becomes a redirect to the login page.
  \<open>StaffMixin\<close> and \<open>SuperuserMixin\<close> never end in \<open>DenyNotFound\<close>.
\<close>

theorem verdict_taxonomy:
  "fst (dispatch m db self log) \<noteq> RedirectToLogin
   \<and> (fst (dispatch m db self log) = Allow
      \<or> fst (dispatch m db self log) = DenyForbidden (permission_denied_message m)
      \<or> fst (dispatch m db self log) = DenyNotFound (does_not_exist_message (owner_value self)))
   \<and> ((m = StaffMixin \<or> m = SuperuserMixin) \<longrightarrow>
         (\<forall>msg. fst (dispatch m db self log) \<noteq> DenyNotFound msg))"
  by (cases m)
     (simp_all add: dispatch_StaffMixin dispatch_SuperuserMixin dispatch_OwnerMixin
        dispatch_OwnerOrStaffMixin)

theorem verdict_taxonomy_witness:
  "fst (dispatch StaffMixin {}
      \<lparr>owner_kwargs = None, kwargs = Map.empty,
       request_user = AnonymousUser, request_path = ''/rand''\<rparr> []) \<noteq> RedirectToLogin
   \<and> (\<forall>msg. fst (dispatch StaffMixin {}
      \<lparr>owner_kwargs = None, kwargs = Map.empty,
       request_user = AnonymousUser, request_path = ''/rand''\<rparr> []) \<noteq> DenyNotFound msg)"
  using verdict_taxonomy [of StaffMixin "{}" "\<lparr>owner_kwargs = None, kwargs = Map.empty,
       request_user = AnonymousUser, request_path = ''/rand''\<rparr>" "[]"]
  by simp

subsection \<open>The anonymous user and an existing owner\<close>

text \<open>
  Claim C9, amended. For the anonymous user and a requested owner name that is in the
  user table and is not the empty string, \<open>OwnerMixin\<close> and \<open>OwnerOrStaffMixin\<close> end
  in \<open>DenyForbidden\<close> with the mixin's \<open>permission_denied_message\<close> (not in
  \<open>DenyNotFound\<close>, and with no outcome of its own for a missing login), and the log
  is unchanged: the anonymous user's empty name differs from the owner name, and the
  anonymous user is not staff.
\<close>

theorem anonymous_existing_owner:
  assumes "m = OwnerMixin \<or> m = OwnerOrStaffMixin"
    and "\<not> is_authenticated (request_user self)"
    and "user_exists db (owner_value self)"
    and "owner_value self \<noteq> Some ''''"
  shows "dispatch m db self log = (DenyForbidden (permission_denied_message m), log)"
proof -
  from assms(2) have u: "request_user self = AnonymousUser"
    by (cases "request_user self") simp_all
  from assms(1,3,4) show ?thesis
    by (auto simp add: u dispatch_OwnerMixin dispatch_OwnerOrStaffMixin)
qed

theorem anonymous_existing_owner_witness:
  "\<not> is_authenticated AnonymousUser
   \<and> user_exists {''owner'', ''other'', ''staff''} (Some ''owner'')
   \<and> Some ''owner'' \<noteq> Some ''''
   \<and> dispatch OwnerOrStaffMixin {''owner'', ''other'', ''staff''}
      \<lparr>owner_kwargs = None, kwargs = [''username'' \<mapsto> ''owner''],
       request_user = AnonymousUser, request_path = ''/rand''\<rparr> []
     = (DenyForbidden
          ''You are not the owner of the page nor a staff user. You cannot view it.'', [])
   \<and> dispatch OwnerMixin {''owner'', ''other'', ''staff''}
      \<lparr>owner_kwargs = None, kwargs = [''username'' \<mapsto> ''owner''],
       request_user = AnonymousUser, request_path = ''/rand''\<rparr> []
     = (DenyForbidden ''You are not the owner of the page. You cannot view it.'', [])"
  using anonymous_existing_owner [of OwnerOrStaffMixin
      "\<lparr>owner_kwargs = None, kwargs = [''username'' \<mapsto> ''owner''],
       request_user = AnonymousUser, request_path = ''/rand''\<rparr>"
      "{''owner'', ''other'', ''staff''}" "[]"]
    anonymous_existing_owner [of OwnerMixin
      "\<lparr>owner_kwargs = None, kwargs = [''username'' \<mapsto> ''owner''],
       request_user = AnonymousUser, request_path = ''/rand''\<rparr>"
      "{''owner'', ''other'', ''staff''}" "[]"]
  by (simp add: owner_value_def get_owner_kwargs_def user_exists_def)

text \<open>
  The restriction to a non-empty owner name is needed. Neither \<open>test_func\<close> tests
  whether the request user is authenticated: when the user table holds a row whose
  username is the empty string and the requested owner name is the empty string, the
  anonymous user's name \<open>''\<close> equals it and both mixins end in \<open>Allow\<close>.
\<close>

theorem anonymous_empty_owner_counterexample:
  "user_exists {''''} (owner_value
      \<lparr>owner_kwargs = None, kwargs = [''username'' \<mapsto> ''''],
       request_user = AnonymousUser, request_path = ''/rand''\<rparr>)
   \<and> \<not> is_authenticated AnonymousUser
   \<and> dispatch OwnerMixin {''''}
      \<lparr>owner_kwargs = None, kwargs = [''username'' \<mapsto> ''''],
       request_user = AnonymousUser, request_path = ''/rand''\<rparr> [] = (Allow, [])
   \<and> dispatch OwnerOrStaffMixin {''''}
      \<lparr>owner_kwargs = None, kwargs = [''username'' \<mapsto> ''''],
       request_user = AnonymousUser, request_path = ''/rand''\<rparr> [] = (Allow, [])"
  by (simp add: dispatch_OwnerMixin dispatch_OwnerOrStaffMixin owner_value_def
        get_owner_kwargs_def user_exists_def)

subsection \<open>The log\<close>

text \<open>
  Claim C10. When the request user is staff and is also the requested owner (the names
  are equal and the owner is in the user table), \<open>OwnerOrStaffMixin\<close> ends in
  \<open>Allow\<close> through the owner branch and the log is unchanged. The log changes only
  in the staff-but-not-owner branch: it differs from the log passed in exactly when the
  owner exists, the request user is not the owner and the request user is staff.
\<close>

theorem staff_owner_no_audit:
  "(user_exists db (owner_value self)
      \<and> Some (get_username (request_user self)) = owner_value self
      \<and> is_staff (request_user self)
     \<longrightarrow> dispatch OwnerOrStaffMixin db self log = (Allow, log))
   \<and> (snd (dispatch OwnerOrStaffMixin db self log) \<noteq> log
        \<longleftrightarrow> user_exists db (owner_value self)
            \<and> Some (get_username (request_user self)) \<noteq> owner_value self
            \<and> is_staff (request_user self))"
  by (simp add: dispatch_OwnerOrStaffMixin)

theorem staff_owner_no_audit_witness:
  "user_exists {''owner'', ''other'', ''staff''} (Some ''staff'')
   \<and> Some (get_username (User ''staff'' True False)) = Some ''staff''
   \<and> is_staff (User ''staff'' True False)
   \<and> dispatch OwnerOrStaffMixin {''owner'', ''other'', ''staff''}
      \<lparr>owner_kwargs = None, kwargs = [''username'' \<mapsto> ''staff''],
       request_user = User ''staff'' True False, request_path = ''/rand''\<rparr> []
     = (Allow, [])"
  using staff_owner_no_audit [of "{''owner'', ''other'', ''staff''}"
      "\<lparr>owner_kwargs = None, kwargs = [''username'' \<mapsto> ''staff''],
       request_user = User ''staff'' True False, request_path = ''/rand''\<rparr>" "[]"]
  by (simp add: owner_value_def get_owner_kwargs_def user_exists_def)

end
